theory Spec2Isabelle
  imports Main
begin

section \<open>Data model of \<open>src/main.cpp\<close>\<close>

text \<open>
  A \<open>std::chrono::system_clock::time_point\<close> is a tick count; the program only compares
  time points, so an integer stands for it. The ids are C++ \<open>int\<close> values taken from the
  static counters \<open>User::next_id\<close> and \<open>Interview::next_id\<close>; incrementing such a
  counter beyond \<open>INT_MAX\<close> is undefined behaviour in C++, so the model counts with
  unbounded integers and describes the runs in which the counters stay in range.
\<close>

type_synonym time_point = int

datatype UserRole = HR_MANAGER | INTERVIEWER

datatype InterviewStatus = SCHEDULED | COMPLETED | CANCELLED | RESCHEDULED

record TimeSlot =
  start_time :: time_point
  end_time :: time_point

definition overlaps :: "TimeSlot \<Rightarrow> TimeSlot \<Rightarrow> bool" where
  "overlaps this other \<longleftrightarrow>
     start_time this < end_time other \<and> end_time this > start_time other"

text \<open>
  A \<open>std::set<int>\<close> is kept as the list of its elements in iteration order
  (ascending, no duplicates): \<open>insert\<close> leaves the set alone when the key is present,
  \<open>erase\<close> removes the key.
\<close>

definition set_insert :: "int \<Rightarrow> int list \<Rightarrow> int list" where
  "set_insert x xs = (if x \<in> set xs then xs else insort x xs)"

definition set_erase :: "int \<Rightarrow> int list \<Rightarrow> int list" where
  "set_erase x xs = removeAll x xs"

record User =
  user_id :: int
  name :: string
  email :: string
  role :: UserRole
  availability :: "TimeSlot list"
  scheduled_interviews :: "int list"

definition add_availability :: "TimeSlot \<Rightarrow> User \<Rightarrow> User" where
  "add_availability slot u = u\<lparr>availability := availability u @ [slot]\<rparr>"

text \<open>The loop of \<open>User::is_available\<close> over the availability vector, with its early return.\<close>

fun is_available_loop :: "TimeSlot list \<Rightarrow> TimeSlot \<Rightarrow> bool" where
  "is_available_loop [] slot = False"
| "is_available_loop (available_slot # rest) slot =
     (if start_time slot \<ge> start_time available_slot \<and>
         end_time slot \<le> end_time available_slot
      then True
      else is_available_loop rest slot)"

definition is_available :: "User \<Rightarrow> TimeSlot \<Rightarrow> bool" where
  "is_available u slot = is_available_loop (availability u) slot"

definition add_scheduled_interview :: "int \<Rightarrow> User \<Rightarrow> User" where
  "add_scheduled_interview iid u =
     u\<lparr>scheduled_interviews := set_insert iid (scheduled_interviews u)\<rparr>"

definition remove_scheduled_interview :: "int \<Rightarrow> User \<Rightarrow> User" where
  "remove_scheduled_interview iid u =
     u\<lparr>scheduled_interviews := set_erase iid (scheduled_interviews u)\<rparr>"

record Interview =
  interview_id :: int
  candidate_name :: string
  position :: string
  hr_manager_id :: int
  interviewer_id :: int
  time_slot :: TimeSlot
  status :: InterviewStatus
  notes_text :: string

text \<open>
  The state of the program: the two registries of the \<open>Scheduler\<close> object and the two
  static id counters.
\<close>

record Scheduler =
  users :: "int \<rightharpoonup> User"
  interviews :: "int \<rightharpoonup> Interview"
  User_next_id :: int
  Interview_next_id :: int

definition initial_state :: Scheduler where
  "initial_state =
     \<lparr>users = Map.empty, interviews = Map.empty, User_next_id = 1, Interview_next_id = 1\<rparr>"

text \<open>The constructors: each takes the next id of its class and advances the counter.\<close>

definition new_User :: "string \<Rightarrow> string \<Rightarrow> UserRole \<Rightarrow> Scheduler \<Rightarrow> User \<times> Scheduler" where
  "new_User n e r s =
     (\<lparr>user_id = User_next_id s, name = n, email = e, role = r,
       availability = [], scheduled_interviews = []\<rparr>,
      s\<lparr>User_next_id := User_next_id s + 1\<rparr>)"

definition new_Interview ::
  "string \<Rightarrow> string \<Rightarrow> int \<Rightarrow> int \<Rightarrow> TimeSlot \<Rightarrow> Scheduler \<Rightarrow> Interview \<times> Scheduler" where
  "new_Interview candidate pos hr_id int_id slot s =
     (\<lparr>interview_id = Interview_next_id s, candidate_name = candidate, position = pos,
       hr_manager_id = hr_id, interviewer_id = int_id, time_slot = slot,
       status = SCHEDULED, notes_text = []\<rparr>,
      s\<lparr>Interview_next_id := Interview_next_id s + 1\<rparr>)"

section \<open>The scheduler\<close>

definition add_user :: "string \<Rightarrow> string \<Rightarrow> UserRole \<Rightarrow> Scheduler \<Rightarrow> int \<times> Scheduler" where
  "add_user n e r s =
     (let (user, s1) = new_User n e r s;
          uid = user_id user
      in (uid, s1\<lparr>users := (users s1)(uid \<mapsto> user)\<rparr>))"

definition get_user :: "Scheduler \<Rightarrow> int \<Rightarrow> User option" where
  "get_user s uid = users s uid"

definition get_interview :: "Scheduler \<Rightarrow> int \<Rightarrow> Interview option" where
  "get_interview s iid = interviews s iid"

text \<open>
  A mutating method called through the pointer that \<open>get_user\<close> returned changes the
  object stored under that key; nothing happens for a null pointer that the caller guards
  (\<open>if (hr_manager) hr_manager->...\<close>).
\<close>

definition update_user :: "int \<Rightarrow> (User \<Rightarrow> User) \<Rightarrow> Scheduler \<Rightarrow> Scheduler" where
  "update_user uid f s =
     (case get_user s uid of
        None \<Rightarrow> s
      | Some u \<Rightarrow> s\<lparr>users := (users s)(uid \<mapsto> f u)\<rparr>)"

text \<open>The loop of \<open>Scheduler::has_conflict\<close> over the ids of the user's set.\<close>

fun has_conflict_loop :: "(int \<rightharpoonup> Interview) \<Rightarrow> int list \<Rightarrow> TimeSlot \<Rightarrow> bool" where
  "has_conflict_loop ivs [] slot = False"
| "has_conflict_loop ivs (iid # rest) slot =
     (if (case ivs iid of
            None \<Rightarrow> False
          | Some it \<Rightarrow> status it = SCHEDULED \<and> overlaps (time_slot it) slot)
      then True
      else has_conflict_loop ivs rest slot)"

definition has_conflict :: "Scheduler \<Rightarrow> int \<Rightarrow> TimeSlot \<Rightarrow> bool" where
  "has_conflict s uid slot =
     (case get_user s uid of
        None \<Rightarrow> False
      | Some user \<Rightarrow> has_conflict_loop (interviews s) (scheduled_interviews user) slot)"

text \<open>
  Every failure of \<open>schedule_interview\<close> is a \<open>std::runtime_error\<close> that carries a
  message; the result pairs the outcome with the state at the point of return or throw.
\<close>

datatype exn = runtime_error string

definition schedule_interview ::
  "string \<Rightarrow> string \<Rightarrow> int \<Rightarrow> int \<Rightarrow> TimeSlot \<Rightarrow> Scheduler \<Rightarrow> (exn + int) \<times> Scheduler" where
  "schedule_interview candidate pos hr_id int_id slot s =
     (case get_user s hr_id of
        None \<Rightarrow> (Inl (runtime_error ''Invalid user ID''), s)
      | Some hr_manager \<Rightarrow>
     (case get_user s int_id of
        None \<Rightarrow> (Inl (runtime_error ''Invalid user ID''), s)
      | Some interviewer \<Rightarrow>
          if role hr_manager \<noteq> HR_MANAGER then
            (Inl (runtime_error ''User is not an HR manager''), s)
          else if role interviewer \<noteq> INTERVIEWER then
            (Inl (runtime_error ''User is not an interviewer''), s)
          else if \<not> is_available hr_manager slot then
            (Inl (runtime_error ''HR manager is not available at this time''), s)
          else if \<not> is_available interviewer slot then
            (Inl (runtime_error ''Interviewer is not available at this time''), s)
          else if has_conflict s hr_id slot \<or> has_conflict s int_id slot then
            (Inl (runtime_error ''Time slot conflicts with existing interview''), s)
          else
            (let (interview, s1) = new_Interview candidate pos hr_id int_id slot s;
                 iid = interview_id interview;
                 s2 = update_user hr_id (add_scheduled_interview iid) s1;
                 s3 = update_user int_id (add_scheduled_interview iid) s2;
                 s4 = s3\<lparr>interviews := (interviews s3)(iid \<mapsto> interview)\<rparr>
             in (Inr iid, s4))))"

definition cancel_interview :: "int \<Rightarrow> Scheduler \<Rightarrow> bool \<times> Scheduler" where
  "cancel_interview iid s =
     (case get_interview s iid of
        None \<Rightarrow> (False, s)
      | Some interview \<Rightarrow>
          (let s1 = s\<lparr>interviews := (interviews s)(iid \<mapsto> interview\<lparr>status := CANCELLED\<rparr>)\<rparr>;
               s2 = update_user (hr_manager_id interview) (remove_scheduled_interview iid) s1;
               s3 = update_user (interviewer_id interview) (remove_scheduled_interview iid) s2
           in (True, s3)))"

section \<open>Runs of the engine\<close>

text \<open>
  The states the engine reaches from program start when its caller uses only
  \<open>add_user\<close>, \<open>add_availability\<close> (through a pointer that \<open>get_user\<close> returned, which
  must not be null), \<open>schedule_interview\<close> and \<open>cancel_interview\<close>.
\<close>

inductive reachable :: "Scheduler \<Rightarrow> bool" where
  reach_init: "reachable initial_state"
| reach_add_user: "reachable s \<Longrightarrow> reachable (snd (add_user n e r s))"
| reach_add_availability:
    "reachable s \<Longrightarrow> get_user s uid = Some u \<Longrightarrow>
     reachable (update_user uid (add_availability slot) s)"
| reach_schedule: "reachable s \<Longrightarrow> reachable (snd (schedule_interview c p h v slot s))"
| reach_cancel: "reachable s \<Longrightarrow> reachable (snd (cancel_interview iid s))"

text \<open>
  The runs of one engine by the same operations from a state \<open>s0\<close>, together with the
  ids that the successful calls of \<open>schedule_interview\<close> returned, in order. Nothing
  else in the process constructs an \<open>Interview\<close> or a \<open>User\<close> during such a run.
\<close>

inductive run :: "Scheduler \<Rightarrow> Scheduler \<Rightarrow> int list \<Rightarrow> bool" for s0 :: Scheduler where
  run_init: "run s0 s0 []"
| run_add_user: "run s0 s ids \<Longrightarrow> run s0 (snd (add_user n e r s)) ids"
| run_add_availability:
    "run s0 s ids \<Longrightarrow> get_user s uid = Some u \<Longrightarrow>
     run s0 (update_user uid (add_availability slot) s) ids"
| run_schedule_ok:
    "run s0 s ids \<Longrightarrow> schedule_interview c p h v slot s = (Inr i, s') \<Longrightarrow>
     run s0 s' (ids @ [i])"
| run_schedule_failed:
    "run s0 s ids \<Longrightarrow> schedule_interview c p h v slot s = (Inl e, s') \<Longrightarrow> run s0 s' ids"
| run_cancel: "run s0 s ids \<Longrightarrow> run s0 (snd (cancel_interview iid s)) ids"

text \<open>
  A further \<open>Scheduler\<close> object constructed in a process whose state is \<open>s\<close>: its two
  registries are empty, and the static counters \<open>User::next_id\<close> and
  \<open>Interview::next_id\<close>, which belong to the classes and not to the \<open>Scheduler\<close>,
  stay where the process left them.
\<close>

definition fresh_Scheduler :: "Scheduler \<Rightarrow> Scheduler" where
  "fresh_Scheduler s = s\<lparr>users := Map.empty, interviews := Map.empty\<rparr>"

section \<open>Notions of the specification\<close>

text \<open>The four failure kinds of booking, and the kind that each message of the code stands for.\<close>

datatype booking_error = UnknownParticipant | RoleMismatch | NotAvailable | SlotConflict

definition error_kind :: "exn \<Rightarrow> booking_error option" where
  "error_kind e =
     (case e of runtime_error msg \<Rightarrow>
        if msg = ''Invalid user ID'' then Some UnknownParticipant
        else if msg = ''User is not an HR manager'' \<or> msg = ''User is not an interviewer''
          then Some RoleMismatch
        else if msg = ''HR manager is not available at this time'' \<or>
                msg = ''Interviewer is not available at this time''
          then Some NotAvailable
        else if msg = ''Time slot conflicts with existing interview'' then Some SlotConflict
        else None)"

text \<open>A window contains a slot; a participant has a window that contains the slot.\<close>

definition contains_slot :: "TimeSlot \<Rightarrow> TimeSlot \<Rightarrow> bool" where
  "contains_slot w s \<longleftrightarrow> start_time w \<le> start_time s \<and> end_time s \<le> end_time w"

definition some_window_contains :: "User \<Rightarrow> TimeSlot \<Rightarrow> bool" where
  "some_window_contains u s \<longleftrightarrow> (\<exists>w\<in>set (availability u). contains_slot w s)"

text \<open>
  The slot overlaps an active SCHEDULED interview of the participant: one whose id is in
  the participant's set of bookings. The variant leaves one interview id out of account.
\<close>

definition overlapping_booking :: "Scheduler \<Rightarrow> TimeSlot \<Rightarrow> int \<Rightarrow> bool" where
  "overlapping_booking s slot iid =
     (case interviews s iid of
        None \<Rightarrow> False
      | Some it \<Rightarrow> status it = SCHEDULED \<and> overlaps (time_slot it) slot)"

definition active_conflict :: "Scheduler \<Rightarrow> int \<Rightarrow> TimeSlot \<Rightarrow> bool" where
  "active_conflict s uid slot =
     (case users s uid of
        None \<Rightarrow> False
      | Some u \<Rightarrow> \<exists>iid\<in>set (scheduled_interviews u). overlapping_booking s slot iid)"

definition active_conflict_besides :: "int \<Rightarrow> Scheduler \<Rightarrow> int \<Rightarrow> TimeSlot \<Rightarrow> bool" where
  "active_conflict_besides cancelled s uid slot =
     (case users s uid of
        None \<Rightarrow> False
      | Some u \<Rightarrow>
          \<exists>iid\<in>set (scheduled_interviews u). iid \<noteq> cancelled \<and> overlapping_booking s slot iid)"

text \<open>
  The checks of booking in the order of the specification: the failure kind that a request
  must be answered with, or \<open>None\<close> when the booking must go through.
\<close>

definition book_interview_failure ::
  "Scheduler \<Rightarrow> int \<Rightarrow> int \<Rightarrow> TimeSlot \<Rightarrow> booking_error option" where
  "book_interview_failure s hr_id int_id slot =
     (case (users s hr_id, users s int_id) of
        (Some hr, Some iv) \<Rightarrow>
          if role hr \<noteq> HR_MANAGER \<or> role iv \<noteq> INTERVIEWER then Some RoleMismatch
          else if \<not> some_window_contains hr slot \<or> \<not> some_window_contains iv slot
            then Some NotAvailable
          else if active_conflict s hr_id slot \<or> active_conflict s int_id slot
            then Some SlotConflict
          else None
      | _ \<Rightarrow> Some UnknownParticipant)"

text \<open>The invariants of the data model.\<close>

definition references :: "Interview \<Rightarrow> int \<Rightarrow> bool" where
  "references it p \<longleftrightarrow> hr_manager_id it = p \<or> interviewer_id it = p"

definition bookings_refer :: "Scheduler \<Rightarrow> bool" where
  "bookings_refer s \<longleftrightarrow>
     (\<forall>uid u. users s uid = Some u \<longrightarrow>
        (\<forall>iid\<in>set (scheduled_interviews u).
           \<exists>it. interviews s iid = Some it \<and> status it = SCHEDULED \<and>
                references it (user_id u)))"

definition no_double_booking :: "Scheduler \<Rightarrow> bool" where
  "no_double_booking s \<longleftrightarrow>
     (\<forall>p i j a b.
        interviews s i = Some a \<and> interviews s j = Some b \<and> i \<noteq> j \<and>
        status a = SCHEDULED \<and> status b = SCHEDULED \<and>
        references a p \<and> references b p \<longrightarrow>
        \<not> overlaps (time_slot a) (time_slot b))"

text \<open>
  What the registries and counters satisfy besides: keys are the ids of the objects and
  lie below the counters, the two participants of an interview are registered with the
  roles that booking checked, and a SCHEDULED interview is in the sets of both.
\<close>

definition registry_ok :: "Scheduler \<Rightarrow> bool" where
  "registry_ok s \<longleftrightarrow>
     (\<forall>uid u. users s uid = Some u \<longrightarrow> user_id u = uid \<and> uid < User_next_id s) \<and>
     (\<forall>iid it. interviews s iid = Some it \<longrightarrow>
        interview_id it = iid \<and> iid < Interview_next_id s \<and>
        (\<exists>hr. users s (hr_manager_id it) = Some hr \<and> role hr = HR_MANAGER \<and>
           (status it = SCHEDULED \<longrightarrow> iid \<in> set (scheduled_interviews hr))) \<and>
        (\<exists>iv. users s (interviewer_id it) = Some iv \<and> role iv = INTERVIEWER \<and>
           (status it = SCHEDULED \<longrightarrow> iid \<in> set (scheduled_interviews iv))))"

definition engine_inv :: "Scheduler \<Rightarrow> bool" where
  "engine_inv s \<longleftrightarrow> registry_ok s \<and> bookings_refer s \<and> no_double_booking s"

section \<open>A sample run\<close>

text \<open>
  An HR manager (id 1) and three interviewers (ids 2, 3 and 4) are registered; users 1, 2
  and 4 are available from minute 540 to minute 1020, user 3 has no window; then an
  interview of users 1 and 2 is booked for minutes 540 to 600.
\<close>

definition demo_registered :: Scheduler where
  "demo_registered =
     update_user 4 (add_availability \<lparr>start_time = 540, end_time = 1020\<rparr>)
      (update_user 2 (add_availability \<lparr>start_time = 540, end_time = 1020\<rparr>)
       (update_user 1 (add_availability \<lparr>start_time = 540, end_time = 1020\<rparr>)
        (snd (add_user ''David'' ''david@cloudfit.com'' INTERVIEWER
         (snd (add_user ''Eve'' ''eve@cloudfit.com'' INTERVIEWER
          (snd (add_user ''Carol'' ''carol@cloudfit.com'' INTERVIEWER
           (snd (add_user ''Alice'' ''alice@cloudfit.com'' HR_MANAGER initial_state))))))))))"

definition demo_booked :: Scheduler where
  "demo_booked =
     snd (schedule_interview ''John Doe'' ''Software Engineer'' 1 2
            \<lparr>start_time = 540, end_time = 600\<rparr> demo_registered)"

text \<open>
  The run goes on: a request of the same two users for minutes 570 to 630 (it fails),
  the cancellation of interview 1, and a new booking for minutes 540 to 600.
\<close>

definition demo_rebooked :: Scheduler where
  "demo_rebooked =
     snd (schedule_interview ''Jane Smith'' ''Product Manager'' 1 2
            \<lparr>start_time = 540, end_time = 600\<rparr>
       (snd (cancel_interview 1
         (snd (schedule_interview ''Jane Smith'' ''Product Manager'' 1 2
                \<lparr>start_time = 570, end_time = 630\<rparr> demo_booked)))))"

text \<open>
  A second engine, constructed after the first one made its first booking: an HR manager
  and an interviewer are registered with it (they get the ids 5 and 6), both are
  available from minute 540 to minute 1020, and an interview is booked.
\<close>

definition second_registered :: Scheduler where
  "second_registered =
     update_user 6 (add_availability \<lparr>start_time = 540, end_time = 1020\<rparr>)
      (update_user 5 (add_availability \<lparr>start_time = 540, end_time = 1020\<rparr>)
       (snd (add_user ''Frank'' ''frank@cloudfit.com'' INTERVIEWER
        (snd (add_user ''Bob Smith'' ''bob@cloudfit.com'' HR_MANAGER
          (fresh_Scheduler demo_booked))))))"

definition second_booked :: Scheduler where
  "second_booked =
     snd (schedule_interview ''Jane Smith'' ''Product Manager'' 5 6
            \<lparr>start_time = 540, end_time = 600\<rparr> second_registered)"

section \<open>Time slots and availability\<close>

lemma is_available_loop_iff:
  "is_available_loop ws slot \<longleftrightarrow>
     (\<exists>w\<in>set ws. start_time w \<le> start_time slot \<and> end_time slot \<le> end_time w)"
  by (induction ws) auto

lemma has_conflict_loop_iff:
  "has_conflict_loop ivs ids slot \<longleftrightarrow>
     (\<exists>iid\<in>set ids. \<exists>it. ivs iid = Some it \<and> status it = SCHEDULED \<and>
        overlaps (time_slot it) slot)"
  by (induction ids) (auto split: option.splits)

text \<open>
  C4 (amended). \<open>a.overlaps(b)\<close> is \<open>a.start < b.end \<and> a.end > b.start\<close>. The predicate is
  symmetric, and two slots that touch at an endpoint do not overlap. A slot of zero
  duration at the instant \<open>t\<close> overlaps \<open>b\<close> exactly when \<open>t\<close> lies strictly inside
  \<open>b\<close>; so it overlaps neither itself nor a slot with identical bounds.
\<close>

theorem overlaps_properties:
  "(overlaps a b \<longleftrightarrow> start_time a < end_time b \<and> end_time a > start_time b) \<and>
   (overlaps a b \<longleftrightarrow> overlaps b a) \<and>
   (end_time a = start_time b \<or> start_time a = end_time b \<longrightarrow> \<not> overlaps a b) \<and>
   (start_time a = end_time a \<longrightarrow>
      (overlaps a b \<longleftrightarrow> start_time b < start_time a \<and> start_time a < end_time b)) \<and>
   (start_time a = end_time a \<and> start_time b = start_time a \<and> end_time b = end_time a \<longrightarrow>
      \<not> overlaps a b)"
  by (auto simp: overlaps_def)

theorem overlaps_properties_witness:
  "\<not> overlaps \<lparr>start_time = 0, end_time = 5\<rparr> \<lparr>start_time = 5, end_time = 10\<rparr> \<and>
   \<not> overlaps \<lparr>start_time = 5, end_time = 5\<rparr> \<lparr>start_time = 5, end_time = 5\<rparr> \<and>
   overlaps \<lparr>start_time = 0, end_time = 6\<rparr> \<lparr>start_time = 5, end_time = 10\<rparr> \<and>
   overlaps \<lparr>start_time = 5, end_time = 10\<rparr> \<lparr>start_time = 0, end_time = 6\<rparr>"
  using overlaps_properties [of "\<lparr>start_time = 0, end_time = 5\<rparr>" "\<lparr>start_time = 5, end_time = 10\<rparr>"]
    overlaps_properties [of "\<lparr>start_time = 5, end_time = 5\<rparr>" "\<lparr>start_time = 5, end_time = 5\<rparr>"]
    overlaps_properties [of "\<lparr>start_time = 0, end_time = 6\<rparr>" "\<lparr>start_time = 5, end_time = 10\<rparr>"]
  by auto

text \<open>
  C4 as stated fails: the zero-duration slot \<open>[5, 5]\<close> overlaps \<open>[0, 10]\<close>.
\<close>

theorem zero_duration_overlaps_counterexample:
  "start_time \<lparr>start_time = 5, end_time = 5\<rparr> = end_time \<lparr>start_time = 5, end_time = 5\<rparr> \<and>
   overlaps \<lparr>start_time = 5, end_time = 5\<rparr> \<lparr>start_time = 0, end_time = 10\<rparr>"
  by (simp add: overlaps_def)

text \<open>
  C5. \<open>p.is_available(s)\<close> is true exactly when some window \<open>w\<close> of \<open>p\<close>'s availability
  has \<open>w.start \<le> s.start\<close> and \<open>s.end \<le> w.end\<close>; the answer depends on the windows
  present, not on their order.
\<close>

theorem is_available_iff:
  "(is_available p s \<longleftrightarrow>
      (\<exists>w\<in>set (availability p). start_time w \<le> start_time s \<and> end_time s \<le> end_time w)) \<and>
   (\<forall>q. set (availability q) = set (availability p) \<longrightarrow>
      is_available q s = is_available p s)"
  by (simp add: is_available_def is_available_loop_iff)

theorem is_available_iff_witness:
  "is_available
     \<lparr>user_id = 1, name = ''Alice'', email = ''a@x'', role = HR_MANAGER,
      availability = [\<lparr>start_time = 0, end_time = 2\<rparr>, \<lparr>start_time = 9, end_time = 17\<rparr>],
      scheduled_interviews = []\<rparr>
     \<lparr>start_time = 9, end_time = 10\<rparr> \<and>
   is_available
     \<lparr>user_id = 1, name = ''Alice'', email = ''a@x'', role = HR_MANAGER,
      availability = [\<lparr>start_time = 9, end_time = 17\<rparr>, \<lparr>start_time = 0, end_time = 2\<rparr>],
      scheduled_interviews = []\<rparr>
     \<lparr>start_time = 9, end_time = 10\<rparr> \<and>
   \<not> is_available
     \<lparr>user_id = 1, name = ''Alice'', email = ''a@x'', role = HR_MANAGER,
      availability = [\<lparr>start_time = 0, end_time = 2\<rparr>, \<lparr>start_time = 9, end_time = 17\<rparr>],
      scheduled_interviews = []\<rparr>
     \<lparr>start_time = 1, end_time = 10\<rparr>"
  using is_available_iff
    [of "\<lparr>user_id = 1, name = ''Alice'', email = ''a@x'', role = HR_MANAGER,
      availability = [\<lparr>start_time = 0, end_time = 2\<rparr>, \<lparr>start_time = 9, end_time = 17\<rparr>],
      scheduled_interviews = []\<rparr>" "\<lparr>start_time = 9, end_time = 10\<rparr>"]
    is_available_iff
    [of "\<lparr>user_id = 1, name = ''Alice'', email = ''a@x'', role = HR_MANAGER,
      availability = [\<lparr>start_time = 0, end_time = 2\<rparr>, \<lparr>start_time = 9, end_time = 17\<rparr>],
      scheduled_interviews = []\<rparr>" "\<lparr>start_time = 1, end_time = 10\<rparr>"]
  by (simp add: insert_commute)

text \<open>
  C9. \<open>has_conflict\<close> on a user id that does not resolve in the user registry returns
  false, whatever the slot.
\<close>

theorem has_conflict_unknown_user:
  "get_user s uid = None \<Longrightarrow> has_conflict s uid slot = False"
  by (simp add: has_conflict_def)

theorem has_conflict_unknown_user_witness:
  "get_user initial_state 7 = None \<and>
   has_conflict initial_state 7 \<lparr>start_time = 0, end_time = 10\<rparr> = False"
  using has_conflict_unknown_user [of initial_state 7 "\<lparr>start_time = 0, end_time = 10\<rparr>"]
  by (simp add: get_user_def initial_state_def)

section \<open>The operations, one by one\<close>

lemma update_user_fields [simp]:
  "users (update_user uid f s) = (\<lambda>x. if x = uid then map_option f (users s uid) else users s x)"
  "interviews (update_user uid f s) = interviews s"
  "User_next_id (update_user uid f s) = User_next_id s"
  "Interview_next_id (update_user uid f s) = Interview_next_id s"
  by (auto simp: update_user_def get_user_def fun_eq_iff split: option.splits)

lemma has_conflict_iff: "has_conflict s uid slot = active_conflict s uid slot"
  by (auto simp: has_conflict_def active_conflict_def get_user_def has_conflict_loop_iff
      overlapping_booking_def split: option.splits)

lemma is_available_contains: "is_available u slot = some_window_contains u slot"
  by (simp add: is_available_def is_available_loop_iff some_window_contains_def contains_slot_def)

lemma schedule_interview_failed:
  "schedule_interview c p h v slot s = (Inl e, s') \<Longrightarrow> s' = s"
  by (auto simp: schedule_interview_def new_Interview_def Let_def split: option.splits if_splits)

lemma schedule_interview_ok:
  assumes "schedule_interview c p h v slot s = (Inr i, s')"
  shows "\<exists>uh uv. users s h = Some uh \<and> users s v = Some uv \<and>
           role uh = HR_MANAGER \<and> role uv = INTERVIEWER \<and> h \<noteq> v \<and>
           is_available uh slot \<and> is_available uv slot \<and>
           \<not> has_conflict s h slot \<and> \<not> has_conflict s v slot \<and>
           i = Interview_next_id s \<and>
           users s' = (users s)(h \<mapsto> add_scheduled_interview i uh,
                                v \<mapsto> add_scheduled_interview i uv) \<and>
           interviews s' = (interviews s)(i \<mapsto>
              \<lparr>interview_id = i, candidate_name = c, position = p, hr_manager_id = h,
               interviewer_id = v, time_slot = slot, status = SCHEDULED, notes_text = []\<rparr>) \<and>
           User_next_id s' = User_next_id s \<and> Interview_next_id s' = i + 1"
  using assms
  by (auto simp: schedule_interview_def new_Interview_def Let_def get_user_def fun_eq_iff
      split: option.splits if_splits)

text \<open>
  C2. A call of \<open>schedule_interview\<close> that fails, with whichever error, leaves the
  whole state as it was: the interview registry, the set of bookings of every user and
  the id counters; no interview record is created.
\<close>

theorem schedule_interview_atomic:
  "fst (schedule_interview c p h v slot s) = Inl e \<Longrightarrow>
   snd (schedule_interview c p h v slot s) = s"
  using schedule_interview_failed [of c p h v slot s e "snd (schedule_interview c p h v slot s)"]
  by (simp add: prod_eq_iff)

text \<open>
  C3. \<open>schedule_interview\<close> checks in the order UnknownParticipant, RoleMismatch,
  NotAvailable, SlotConflict: the kind of the error it throws is the first failure in
  this order that the state gives rise to, each kind has messages of its own, and the
  call succeeds exactly when no check fails.
\<close>

theorem schedule_interview_error_order:
  "(case fst (schedule_interview c p h v slot s) of
      Inl e \<Rightarrow> error_kind e \<noteq> None \<and> error_kind e = book_interview_failure s h v slot
    | Inr i \<Rightarrow> book_interview_failure s h v slot = None)"
  by (simp add: schedule_interview_def book_interview_failure_def error_kind_def
      has_conflict_iff is_available_contains get_user_def new_Interview_def Let_def
      split: option.splits)

lemma remove_scheduled_interview_idem [simp]:
  "remove_scheduled_interview iid (remove_scheduled_interview iid u) =
   remove_scheduled_interview iid u"
  by (simp add: remove_scheduled_interview_def set_erase_def)

lemma cancel_interview_unknown:
  "interviews s iid = None \<Longrightarrow> cancel_interview iid s = (False, s)"
  by (simp add: cancel_interview_def get_interview_def)

lemma cancel_interview_known:
  assumes "interviews s iid = Some it"
  shows "fst (cancel_interview iid s) = True"
    and "interviews (snd (cancel_interview iid s)) = (interviews s)(iid \<mapsto> it\<lparr>status := CANCELLED\<rparr>)"
    and "users (snd (cancel_interview iid s)) =
           (\<lambda>x. if x = hr_manager_id it \<or> x = interviewer_id it
                then map_option (remove_scheduled_interview iid) (users s x) else users s x)"
    and "User_next_id (snd (cancel_interview iid s)) = User_next_id s"
    and "Interview_next_id (snd (cancel_interview iid s)) = Interview_next_id s"
  using assms
  by (auto simp: cancel_interview_def get_interview_def Let_def fun_eq_iff
      option.map_comp comp_def split: option.splits)

lemma Scheduler_eqI:
  "users s = users t \<Longrightarrow> interviews s = interviews t \<Longrightarrow> User_next_id s = User_next_id t \<Longrightarrow>
   Interview_next_id s = Interview_next_id t \<Longrightarrow> (s::Scheduler) = t"
  by simp

text \<open>
  C7. For an id that is in the interview registry, \<open>cancel_interview\<close> returns true, a
  second call returns true again and leaves the whole state (so every user's bookings and
  the status CANCELLED of the interview) as the first call left it; \<open>cancel_interview\<close>
  returns false exactly when the id is not in the registry.
\<close>

theorem cancel_interview_idempotent:
  "(interviews s iid \<noteq> None \<longrightarrow>
      fst (cancel_interview iid s) = True \<and>
      cancel_interview iid (snd (cancel_interview iid s)) = (True, snd (cancel_interview iid s)) \<and>
      map_option status (interviews (snd (cancel_interview iid s)) iid) = Some CANCELLED) \<and>
   (fst (cancel_interview iid s) = False \<longleftrightarrow> interviews s iid = None)"
proof (cases "interviews s iid")
  case None
  then show ?thesis by (simp add: cancel_interview_unknown)
next
  case (Some it)
  let ?s1 = "snd (cancel_interview iid s)"
  let ?it1 = "it\<lparr>status := CANCELLED\<rparr>"
  have i1: "interviews ?s1 iid = Some ?it1"
    by (simp add: cancel_interview_known(2) [OF Some])
  have "snd (cancel_interview iid ?s1) = ?s1"
  proof (rule Scheduler_eqI)
    show "users (snd (cancel_interview iid ?s1)) = users ?s1"
      by (auto simp: cancel_interview_known(3) [OF i1] cancel_interview_known(3) [OF Some]
          fun_eq_iff option.map_comp comp_def)
    show "interviews (snd (cancel_interview iid ?s1)) = interviews ?s1"
      by (simp add: cancel_interview_known(2) [OF i1] cancel_interview_known(2) [OF Some])
  qed (simp_all add: cancel_interview_known [OF i1])
  moreover have "fst (cancel_interview iid ?s1) = True"
    by (rule cancel_interview_known(1) [OF i1])
  ultimately have "cancel_interview iid ?s1 = (True, ?s1)"
    by (simp add: prod_eq_iff)
  then show ?thesis
    using Some i1 by (simp add: cancel_interview_known(1) [OF Some])
qed

section \<open>Preservation of the invariants\<close>

lemma set_set_insert [simp]: "set (set_insert x xs) = insert x (set xs)"
  by (auto simp: set_insert_def set_insort_key)

lemma set_set_erase [simp]: "set (set_erase x xs) = set xs - {x}"
  by (auto simp: set_erase_def)

lemma add_scheduled_interview_fields [simp]:
  "user_id (add_scheduled_interview i u) = user_id u"
  "role (add_scheduled_interview i u) = role u"
  "availability (add_scheduled_interview i u) = availability u"
  "set (scheduled_interviews (add_scheduled_interview i u)) = insert i (set (scheduled_interviews u))"
  by (simp_all add: add_scheduled_interview_def)

lemma remove_scheduled_interview_fields [simp]:
  "user_id (remove_scheduled_interview i u) = user_id u"
  "role (remove_scheduled_interview i u) = role u"
  "availability (remove_scheduled_interview i u) = availability u"
  "set (scheduled_interviews (remove_scheduled_interview i u)) = set (scheduled_interviews u) - {i}"
  by (simp_all add: remove_scheduled_interview_def)

lemma add_availability_fields [simp]:
  "user_id (add_availability w u) = user_id u"
  "role (add_availability w u) = role u"
  "availability (add_availability w u) = availability u @ [w]"
  "scheduled_interviews (add_availability w u) = scheduled_interviews u"
  by (simp_all add: add_availability_def)

lemma add_user_fields:
  "fst (add_user n e r s) = User_next_id s"
  "users (snd (add_user n e r s)) = (users s)(User_next_id s \<mapsto>
     \<lparr>user_id = User_next_id s, name = n, email = e, role = r,
      availability = [], scheduled_interviews = []\<rparr>)"
  "interviews (snd (add_user n e r s)) = interviews s"
  "User_next_id (snd (add_user n e r s)) = User_next_id s + 1"
  "Interview_next_id (snd (add_user n e r s)) = Interview_next_id s"
  by (simp_all add: add_user_def new_User_def Let_def)

lemma engine_inv_initial: "engine_inv initial_state"
  by (simp add: engine_inv_def registry_ok_def bookings_refer_def no_double_booking_def
      initial_state_def)

lemma registry_ok_add_user:
  assumes "registry_ok s" shows "registry_ok (snd (add_user n e r s))"
  using assms unfolding registry_ok_def add_user_fields
  by (auto; fastforce)

lemma bookings_refer_add_user:
  assumes "bookings_refer s" shows "bookings_refer (snd (add_user n e r s))"
  using assms unfolding bookings_refer_def add_user_fields
  by (auto split: if_splits)

lemma no_double_booking_add_user:
  assumes "no_double_booking s" shows "no_double_booking (snd (add_user n e r s))"
  using assms unfolding no_double_booking_def add_user_fields .

lemma registry_ok_add_availability:
  assumes "registry_ok s" shows "registry_ok (update_user uid (add_availability w) s)"
  using assms unfolding registry_ok_def
  by (auto; fastforce)

lemma bookings_refer_add_availability:
  assumes "bookings_refer s" shows "bookings_refer (update_user uid (add_availability w) s)"
  using assms unfolding bookings_refer_def
  by (auto split: if_splits)

lemma no_double_booking_add_availability:
  assumes "no_double_booking s" shows "no_double_booking (update_user uid (add_availability w) s)"
  using assms unfolding no_double_booking_def by simp

lemma active_conflictD:
  assumes "\<not> active_conflict s uid slot" "users s uid = Some u"
    "iid \<in> set (scheduled_interviews u)" "interviews s iid = Some it" "status it = SCHEDULED"
  shows "\<not> overlaps (time_slot it) slot"
  using assms by (auto simp: active_conflict_def overlapping_booking_def)

lemma overlaps_sym: "overlaps a b = overlaps b a"
  by (auto simp: overlaps_def)

lemma registry_ok_fresh:
  assumes "registry_ok s" shows "interviews s (Interview_next_id s) = None"
proof (cases "interviews s (Interview_next_id s)")
  case (Some it)
  with assms have "Interview_next_id s < Interview_next_id s"
    unfolding registry_ok_def by blast
  then show ?thesis by simp
qed simp

lemma registry_ok_schedule:
  assumes "registry_ok s" "schedule_interview c p h v slot s = (Inr i, s')"
  shows "registry_ok s'"
proof -
  from schedule_interview_ok [OF assms(2)] obtain uh uv where
    *: "users s h = Some uh" "users s v = Some uv" "role uh = HR_MANAGER" "role uv = INTERVIEWER"
      "h \<noteq> v" "i = Interview_next_id s"
      "users s' = (users s)(h \<mapsto> add_scheduled_interview i uh, v \<mapsto> add_scheduled_interview i uv)"
      "interviews s' = (interviews s)(i \<mapsto>
              \<lparr>interview_id = i, candidate_name = c, position = p, hr_manager_id = h,
               interviewer_id = v, time_slot = slot, status = SCHEDULED, notes_text = []\<rparr>)"
      "User_next_id s' = User_next_id s" "Interview_next_id s' = i + 1"
    by blast
  show ?thesis
    using assms(1) * unfolding registry_ok_def
    by (auto; fastforce)
qed

lemma bookings_refer_schedule:
  assumes "registry_ok s" "bookings_refer s" "schedule_interview c p h v slot s = (Inr i, s')"
  shows "bookings_refer s'"
proof -
  from schedule_interview_ok [OF assms(3)] obtain uh uv where
    *: "users s h = Some uh" "users s v = Some uv" "role uh = HR_MANAGER" "role uv = INTERVIEWER"
      "h \<noteq> v" "i = Interview_next_id s"
      "users s' = (users s)(h \<mapsto> add_scheduled_interview i uh, v \<mapsto> add_scheduled_interview i uv)"
      "interviews s' = (interviews s)(i \<mapsto>
              \<lparr>interview_id = i, candidate_name = c, position = p, hr_manager_id = h,
               interviewer_id = v, time_slot = slot, status = SCHEDULED, notes_text = []\<rparr>)"
    by blast
  have uid: "user_id uh = h" "user_id uv = v"
    using assms(1) * by (auto simp: registry_ok_def)
  have fresh: "interviews s i = None"
    using registry_ok_fresh [OF assms(1)] * by simp
  show ?thesis
    unfolding bookings_refer_def
  proof (intro allI impI ballI)
    fix uid u iid
    assume u: "users s' uid = Some u" and iid: "iid \<in> set (scheduled_interviews u)"
    show "\<exists>it. interviews s' iid = Some it \<and> status it = SCHEDULED \<and> references it (user_id u)"
    proof (cases "iid = i")
      case True
      have "uid = h \<or> uid = v"
      proof (rule ccontr)
        assume "\<not> (uid = h \<or> uid = v)"
        then have "users s uid = Some u" using u * by simp
        with assms(2) iid True have "interviews s i \<noteq> None"
          by (fastforce simp: bookings_refer_def)
        with fresh show False by simp
      qed
      then show ?thesis using u * uid True by (auto simp: references_def)
    next
      case False
      obtain u0 where u0: "users s uid = Some u0" "user_id u0 = user_id u"
        "iid \<in> set (scheduled_interviews u0)"
        using u iid * False by (auto split: if_splits)
      with assms(2) obtain it where "interviews s iid = Some it" "status it = SCHEDULED"
        "references it (user_id u)"
        by (fastforce simp: bookings_refer_def)
      then show ?thesis using * False by simp
    qed
  qed
qed

lemma no_double_booking_schedule:
  assumes "registry_ok s" "no_double_booking s" "schedule_interview c p h v slot s = (Inr i, s')"
  shows "no_double_booking s'"
proof -
  from schedule_interview_ok [OF assms(3)] obtain uh uv where
    *: "users s h = Some uh" "users s v = Some uv" "h \<noteq> v" "i = Interview_next_id s"
      "\<not> has_conflict s h slot" "\<not> has_conflict s v slot"
      "interviews s' = (interviews s)(i \<mapsto>
              \<lparr>interview_id = i, candidate_name = c, position = p, hr_manager_id = h,
               interviewer_id = v, time_slot = slot, status = SCHEDULED, notes_text = []\<rparr>)"
    by blast
  let ?new = "\<lparr>interview_id = i, candidate_name = c, position = p, hr_manager_id = h,
               interviewer_id = v, time_slot = slot, status = SCHEDULED, notes_text = []\<rparr>"
  have old: "\<not> overlaps (time_slot b) slot"
    if "interviews s j = Some b" "status b = SCHEDULED" "references b q" "references ?new q"
    for j b q
  proof -
    from that(4) have q: "q = h \<or> q = v" by (auto simp: references_def)
    from assms(1) that(1,2) obtain hr iv where
      "users s (hr_manager_id b) = Some hr" "j \<in> set (scheduled_interviews hr)"
      "users s (interviewer_id b) = Some iv" "j \<in> set (scheduled_interviews iv)"
      unfolding registry_ok_def by blast
    with that(3) obtain uq where uq: "users s q = Some uq" "j \<in> set (scheduled_interviews uq)"
      by (auto simp: references_def)
    from q * have "\<not> active_conflict s q slot"
      by (auto simp: has_conflict_iff)
    from active_conflictD [OF this uq that(1,2)] show ?thesis .
  qed
  show ?thesis
    unfolding no_double_booking_def
  proof (intro allI impI)
    fix q k j a b
    assume H: "interviews s' k = Some a \<and> interviews s' j = Some b \<and> k \<noteq> j \<and>
        status a = SCHEDULED \<and> status b = SCHEDULED \<and> references a q \<and> references b q"
    show "\<not> overlaps (time_slot a) (time_slot b)"
    proof (cases "k = i")
      case True
      with H * have a: "a = ?new" and b: "interviews s j = Some b" by auto
      from old [OF b, of q] H a have "\<not> overlaps (time_slot b) slot" by simp
      then show ?thesis using a by (simp add: overlaps_sym)
    next
      case k: False
      show ?thesis
      proof (cases "j = i")
        case True
        with H * k have b: "b = ?new" and a: "interviews s k = Some a" by auto
        from old [OF a, of q] H b show ?thesis by simp
      next
        case False
        with k H * have "interviews s k = Some a" "interviews s j = Some b" by auto
        with assms(2) H show ?thesis unfolding no_double_booking_def by blast
      qed
    qed
  qed
qed

lemma registry_ok_cancel:
  assumes "registry_ok s" shows "registry_ok (snd (cancel_interview iid s))"
proof (cases "interviews s iid")
  case None
  then show ?thesis using assms by (simp add: cancel_interview_unknown)
next
  case (Some it)
  show ?thesis
    using assms Some unfolding registry_ok_def cancel_interview_known [OF Some]
    by (auto; fastforce)
qed

lemma bookings_refer_cancel:
  assumes "bookings_refer s" "registry_ok s" shows "bookings_refer (snd (cancel_interview iid s))"
proof (cases "interviews s iid")
  case None
  then show ?thesis using assms by (simp add: cancel_interview_unknown)
next
  case (Some it)
  have key: "uid = hr_manager_id it \<or> uid = interviewer_id it"
    if "users s uid = Some u" "iid \<in> set (scheduled_interviews u)" for uid u
    using that assms Some by (fastforce simp: bookings_refer_def registry_ok_def references_def)
  show ?thesis
    unfolding bookings_refer_def cancel_interview_known [OF Some]
  proof (intro allI impI ballI)
    fix uid u j
    assume u: "(if uid = hr_manager_id it \<or> uid = interviewer_id it
          then map_option (remove_scheduled_interview iid) (users s uid) else users s uid) = Some u"
      and j: "j \<in> set (scheduled_interviews u)"
    obtain u0 where u0: "users s uid = Some u0" "user_id u0 = user_id u"
      "j \<in> set (scheduled_interviews u0)"
      "uid = hr_manager_id it \<or> uid = interviewer_id it \<longrightarrow> j \<noteq> iid"
      using u j by (auto split: if_splits)
    with key [OF u0(1)] have "j \<noteq> iid" by blast
    moreover from assms(1) u0 obtain jt where "interviews s j = Some jt" "status jt = SCHEDULED"
      "references jt (user_id u)" by (fastforce simp: bookings_refer_def)
    ultimately show "\<exists>ita. ((interviews s)(iid \<mapsto> it\<lparr>status := CANCELLED\<rparr>)) j = Some ita \<and>
       status ita = SCHEDULED \<and> references ita (user_id u)"
      by simp
  qed
qed

lemma no_double_booking_cancel:
  assumes "no_double_booking s" shows "no_double_booking (snd (cancel_interview iid s))"
proof (cases "interviews s iid")
  case None
  then show ?thesis using assms by (simp add: cancel_interview_unknown)
next
  case (Some it)
  show ?thesis
    using assms unfolding no_double_booking_def cancel_interview_known [OF Some]
    by (auto split: if_splits)
qed

section \<open>The sample run, evaluated\<close>

lemma demo_registered_fields:
  "users demo_registered =
     [1 \<mapsto> \<lparr>user_id = 1, name = ''Alice'', email = ''alice@cloudfit.com'', role = HR_MANAGER,
             availability = [\<lparr>start_time = 540, end_time = 1020\<rparr>], scheduled_interviews = []\<rparr>,
      2 \<mapsto> \<lparr>user_id = 2, name = ''Carol'', email = ''carol@cloudfit.com'', role = INTERVIEWER,
             availability = [\<lparr>start_time = 540, end_time = 1020\<rparr>], scheduled_interviews = []\<rparr>,
      3 \<mapsto> \<lparr>user_id = 3, name = ''Eve'', email = ''eve@cloudfit.com'', role = INTERVIEWER,
             availability = [], scheduled_interviews = []\<rparr>,
      4 \<mapsto> \<lparr>user_id = 4, name = ''David'', email = ''david@cloudfit.com'', role = INTERVIEWER,
             availability = [\<lparr>start_time = 540, end_time = 1020\<rparr>], scheduled_interviews = []\<rparr>]"
  "interviews demo_registered = Map.empty"
  "User_next_id demo_registered = 5"
  "Interview_next_id demo_registered = 1"
  by (simp_all add: demo_registered_def add_user_fields initial_state_def add_availability_def
      fun_eq_iff)

lemma demo_first_booking:
  "schedule_interview ''John Doe'' ''Software Engineer'' 1 2
     \<lparr>start_time = 540, end_time = 600\<rparr> demo_registered = (Inr 1, demo_booked)"
  by (simp add: demo_booked_def schedule_interview_def get_user_def demo_registered_fields
      is_available_def has_conflict_def new_Interview_def Let_def prod_eq_iff)

lemma demo_booked_fields:
  "users demo_booked =
     [1 \<mapsto> \<lparr>user_id = 1, name = ''Alice'', email = ''alice@cloudfit.com'', role = HR_MANAGER,
             availability = [\<lparr>start_time = 540, end_time = 1020\<rparr>], scheduled_interviews = [1]\<rparr>,
      2 \<mapsto> \<lparr>user_id = 2, name = ''Carol'', email = ''carol@cloudfit.com'', role = INTERVIEWER,
             availability = [\<lparr>start_time = 540, end_time = 1020\<rparr>], scheduled_interviews = [1]\<rparr>,
      3 \<mapsto> \<lparr>user_id = 3, name = ''Eve'', email = ''eve@cloudfit.com'', role = INTERVIEWER,
             availability = [], scheduled_interviews = []\<rparr>,
      4 \<mapsto> \<lparr>user_id = 4, name = ''David'', email = ''david@cloudfit.com'', role = INTERVIEWER,
             availability = [\<lparr>start_time = 540, end_time = 1020\<rparr>], scheduled_interviews = []\<rparr>]"
  "interviews demo_booked =
     [1 \<mapsto> \<lparr>interview_id = 1, candidate_name = ''John Doe'', position = ''Software Engineer'',
             hr_manager_id = 1, interviewer_id = 2,
             time_slot = \<lparr>start_time = 540, end_time = 600\<rparr>,
             status = SCHEDULED, notes_text = []\<rparr>]"
  "User_next_id demo_booked = 5"
  "Interview_next_id demo_booked = 2"
  by (simp_all add: demo_booked_def schedule_interview_def get_user_def demo_registered_fields
      is_available_def has_conflict_def new_Interview_def Let_def add_scheduled_interview_def
      set_insert_def fun_eq_iff)

lemma demo_conflicting_booking:
  "schedule_interview ''Jane Smith'' ''Product Manager'' 1 2
     \<lparr>start_time = 570, end_time = 630\<rparr> demo_booked =
   (Inl (runtime_error ''Time slot conflicts with existing interview''), demo_booked)"
  by (simp add: schedule_interview_def get_user_def demo_booked_fields
      is_available_def has_conflict_def overlaps_def)

lemma reach_add_availability_known:
  "reachable s \<Longrightarrow> users s uid \<noteq> None \<Longrightarrow> reachable (update_user uid (add_availability w) s)"
  by (auto simp: get_user_def intro: reach_add_availability)

lemma reachable_demo_registered: "reachable demo_registered"
  unfolding demo_registered_def
  by (intro reach_add_availability_known reach_add_user reach_init)
   (simp_all add: add_user_fields initial_state_def)

lemma reachable_demo_booked: "reachable demo_booked"
  unfolding demo_booked_def by (intro reach_schedule reachable_demo_registered)

lemma run_add_availability_known:
  "run s0 s ids \<Longrightarrow> users s uid \<noteq> None \<Longrightarrow>
   run s0 (update_user uid (add_availability w) s) ids"
  by (auto simp: get_user_def intro: run_add_availability)

lemma run_demo_registered: "run initial_state demo_registered []"
  unfolding demo_registered_def
  by (intro run_add_availability_known run_add_user run_init)
   (simp_all add: add_user_fields initial_state_def)

lemma run_demo_booked: "run initial_state demo_booked [1]"
  using run_schedule_ok [OF run_demo_registered demo_first_booking] by simp

lemma demo_cancelled_fields:
  "users (snd (cancel_interview 1 demo_booked)) =
     [1 \<mapsto> \<lparr>user_id = 1, name = ''Alice'', email = ''alice@cloudfit.com'', role = HR_MANAGER,
             availability = [\<lparr>start_time = 540, end_time = 1020\<rparr>], scheduled_interviews = []\<rparr>,
      2 \<mapsto> \<lparr>user_id = 2, name = ''Carol'', email = ''carol@cloudfit.com'', role = INTERVIEWER,
             availability = [\<lparr>start_time = 540, end_time = 1020\<rparr>], scheduled_interviews = []\<rparr>,
      3 \<mapsto> \<lparr>user_id = 3, name = ''Eve'', email = ''eve@cloudfit.com'', role = INTERVIEWER,
             availability = [], scheduled_interviews = []\<rparr>,
      4 \<mapsto> \<lparr>user_id = 4, name = ''David'', email = ''david@cloudfit.com'', role = INTERVIEWER,
             availability = [\<lparr>start_time = 540, end_time = 1020\<rparr>], scheduled_interviews = []\<rparr>]"
  "interviews (snd (cancel_interview 1 demo_booked)) =
     [1 \<mapsto> \<lparr>interview_id = 1, candidate_name = ''John Doe'', position = ''Software Engineer'',
             hr_manager_id = 1, interviewer_id = 2,
             time_slot = \<lparr>start_time = 540, end_time = 600\<rparr>,
             status = CANCELLED, notes_text = []\<rparr>]"
  "User_next_id (snd (cancel_interview 1 demo_booked)) = 5"
  "Interview_next_id (snd (cancel_interview 1 demo_booked)) = 2"
  by (simp_all add: cancel_interview_def get_interview_def demo_booked_fields Let_def
      remove_scheduled_interview_def set_erase_def fun_eq_iff)

lemma demo_second_booking:
  "schedule_interview ''Jane Smith'' ''Product Manager'' 1 2
     \<lparr>start_time = 540, end_time = 600\<rparr> (snd (cancel_interview 1 demo_booked)) =
   (Inr 2, demo_rebooked)"
proof -
  have "demo_rebooked =
      snd (schedule_interview ''Jane Smith'' ''Product Manager'' 1 2
        \<lparr>start_time = 540, end_time = 600\<rparr> (snd (cancel_interview 1 demo_booked)))"
    by (simp add: demo_rebooked_def demo_conflicting_booking)
  moreover have "fst (schedule_interview ''Jane Smith'' ''Product Manager'' 1 2
        \<lparr>start_time = 540, end_time = 600\<rparr> (snd (cancel_interview 1 demo_booked))) = Inr 2"
    by (simp add: schedule_interview_def get_user_def demo_cancelled_fields is_available_def
        has_conflict_def new_Interview_def Let_def)
  ultimately show ?thesis by (simp add: prod_eq_iff)
qed

lemma run_demo_rebooked: "run initial_state demo_rebooked [1, 2]"
  using run_schedule_ok [OF run_cancel [OF run_schedule_failed
    [OF run_demo_booked demo_conflicting_booking], of 1] demo_second_booking]
  by simp

lemma second_registered_fields:
  "users second_registered =
     [5 \<mapsto> \<lparr>user_id = 5, name = ''Bob Smith'', email = ''bob@cloudfit.com'', role = HR_MANAGER,
             availability = [\<lparr>start_time = 540, end_time = 1020\<rparr>], scheduled_interviews = []\<rparr>,
      6 \<mapsto> \<lparr>user_id = 6, name = ''Frank'', email = ''frank@cloudfit.com'', role = INTERVIEWER,
             availability = [\<lparr>start_time = 540, end_time = 1020\<rparr>], scheduled_interviews = []\<rparr>]"
  "interviews second_registered = Map.empty"
  "User_next_id second_registered = 7"
  "Interview_next_id second_registered = 2"
  by (simp_all add: second_registered_def fresh_Scheduler_def add_user_fields demo_booked_fields
      add_availability_def fun_eq_iff)

lemma second_first_booking:
  "schedule_interview ''Jane Smith'' ''Product Manager'' 5 6
     \<lparr>start_time = 540, end_time = 600\<rparr> second_registered = (Inr 2, second_booked)"
  by (simp add: second_booked_def schedule_interview_def get_user_def second_registered_fields
      is_available_def has_conflict_def new_Interview_def Let_def prod_eq_iff)

lemma run_second_registered: "run (fresh_Scheduler demo_booked) second_registered []"
  unfolding second_registered_def
  by (intro run_add_availability_known run_add_user run_init)
   (simp_all add: add_user_fields fresh_Scheduler_def demo_booked_fields)

lemma run_second_booked: "run (fresh_Scheduler demo_booked) second_booked [2]"
  using run_schedule_ok [OF run_second_registered second_first_booking] by simp

section \<open>Reachable states\<close>

lemma engine_inv_schedule:
  assumes "engine_inv s" shows "engine_inv (snd (schedule_interview c p h v slot s))"
proof (cases "schedule_interview c p h v slot s")
  case (Pair r s')
  show ?thesis
  proof (cases r)
    case (Inl e)
    with Pair schedule_interview_failed have "s' = s" by blast
    with Pair assms show ?thesis by simp
  next
    case (Inr i)
    with Pair have ok: "schedule_interview c p h v slot s = (Inr i, s')" by simp
    from assms have inv: "registry_ok s" "bookings_refer s" "no_double_booking s"
      by (simp_all add: engine_inv_def)
    have "registry_ok s'"
      by (rule registry_ok_schedule [OF inv(1) ok])
    moreover have "bookings_refer s'"
      by (rule bookings_refer_schedule [OF inv(1,2) ok])
    moreover have "no_double_booking s'"
      by (rule no_double_booking_schedule [OF inv(1,3) ok])
    ultimately show ?thesis using Pair by (simp add: engine_inv_def)
  qed
qed

lemma engine_inv_cancel:
  assumes "engine_inv s" shows "engine_inv (snd (cancel_interview iid s))"
  using assms
  by (simp add: engine_inv_def registry_ok_cancel bookings_refer_cancel no_double_booking_cancel)

lemma reachable_engine_inv: "reachable s \<Longrightarrow> engine_inv s"
proof (induction rule: reachable.induct)
  case reach_init
  show ?case by (rule engine_inv_initial)
next
  case (reach_add_user s n e r)
  then show ?case
    by (simp add: engine_inv_def registry_ok_add_user bookings_refer_add_user
        no_double_booking_add_user)
next
  case (reach_add_availability s uid u slot)
  then show ?case
    by (simp add: engine_inv_def registry_ok_add_availability bookings_refer_add_availability
        no_double_booking_add_availability)
next
  case (reach_schedule s c p h v slot)
  then show ?case by (simp add: engine_inv_schedule)
next
  case (reach_cancel s iid)
  then show ?case by (simp add: engine_inv_cancel)
qed

lemma schedule_interview_conflict:
  assumes "users s h = Some uh" "users s v = Some uv" "role uh = HR_MANAGER"
    "role uv = INTERVIEWER" "is_available uh slot" "is_available uv slot"
    "has_conflict s h slot \<or> has_conflict s v slot"
  shows "schedule_interview c p h v slot s =
    (Inl (runtime_error ''Time slot conflicts with existing interview''), s)"
  using assms by (simp add: schedule_interview_def get_user_def)

lemma scheduled_is_active:
  assumes "registry_ok s" "interviews s j = Some b" "status b = SCHEDULED" "references b q"
    "overlaps (time_slot b) slot"
  shows "active_conflict s q slot"
proof -
  from assms(1-3) obtain hr iv where
    "users s (hr_manager_id b) = Some hr" "j \<in> set (scheduled_interviews hr)"
    "users s (interviewer_id b) = Some iv" "j \<in> set (scheduled_interviews iv)"
    unfolding registry_ok_def by blast
  with assms(4) obtain uq where "users s q = Some uq" "j \<in> set (scheduled_interviews uq)"
    by (auto simp: references_def)
  with assms(2,3,5) show ?thesis
    by (force simp: active_conflict_def overlapping_booking_def)
qed

text \<open>
  C1. In every state that the engine operations reach, no two distinct SCHEDULED
  interviews that reference a common participant (as HR manager or as interviewer) have
  overlapping slots. A request for a slot that overlaps a SCHEDULED interview of either
  participant is rejected and changes nothing; when the earlier checks pass, the error is
  the slot conflict.
\<close>

theorem no_double_booking_reachable:
  assumes "reachable s"
  shows "no_double_booking s \<and>
    (\<forall>c p h v slot j b.
       interviews s j = Some b \<and> status b = SCHEDULED \<and> (references b h \<or> references b v) \<and>
       overlaps (time_slot b) slot \<longrightarrow>
       (\<exists>e. schedule_interview c p h v slot s = (Inl e, s) \<and>
          (\<forall>uh uv. users s h = Some uh \<and> users s v = Some uv \<and>
             role uh = HR_MANAGER \<and> role uv = INTERVIEWER \<and>
             is_available uh slot \<and> is_available uv slot \<longrightarrow>
             e = runtime_error ''Time slot conflicts with existing interview'')))"
proof (intro conjI allI impI)
  from reachable_engine_inv [OF assms] show "no_double_booking s"
    by (simp add: engine_inv_def)
next
  fix c p h v slot j b
  assume H: "interviews s j = Some b \<and> status b = SCHEDULED \<and>
    (references b h \<or> references b v) \<and> overlaps (time_slot b) slot"
  from reachable_engine_inv [OF assms] have ok: "registry_ok s"
    by (simp add: engine_inv_def)
  from H scheduled_is_active [OF ok] have "active_conflict s h slot \<or> active_conflict s v slot"
    by blast
  then have conflict: "has_conflict s h slot \<or> has_conflict s v slot"
    by (simp add: has_conflict_iff)
  obtain r s' where rs: "schedule_interview c p h v slot s = (r, s')"
    by (cases "schedule_interview c p h v slot s")
  have "\<exists>e. r = Inl e"
  proof (cases r)
    case (Inr i)
    with rs schedule_interview_ok [of c p h v slot s i s'] conflict show ?thesis by auto
  qed simp
  then obtain e where e: "r = Inl e" ..
  with rs schedule_interview_failed have s': "s' = s" by blast
  have "e = runtime_error ''Time slot conflicts with existing interview''"
    if "users s h = Some uh \<and> users s v = Some uv \<and> role uh = HR_MANAGER \<and>
        role uv = INTERVIEWER \<and> is_available uh slot \<and> is_available uv slot" for uh uv
    using schedule_interview_conflict [of s h uh v uv slot c p] that conflict rs e by simp
  with rs e s' show "\<exists>e. schedule_interview c p h v slot s = (Inl e, s) \<and>
          (\<forall>uh uv. users s h = Some uh \<and> users s v = Some uv \<and>
             role uh = HR_MANAGER \<and> role uv = INTERVIEWER \<and>
             is_available uh slot \<and> is_available uv slot \<longrightarrow>
             e = runtime_error ''Time slot conflicts with existing interview'')"
    by blast
qed

theorem no_double_booking_reachable_witness:
  "reachable demo_booked \<and> no_double_booking demo_booked \<and>
   schedule_interview ''Jane Smith'' ''Product Manager'' 1 2
     \<lparr>start_time = 570, end_time = 630\<rparr> demo_booked =
   (Inl (runtime_error ''Time slot conflicts with existing interview''), demo_booked)"
proof -
  have "\<exists>e. schedule_interview ''Jane Smith'' ''Product Manager'' 1 2
       \<lparr>start_time = 570, end_time = 630\<rparr> demo_booked = (Inl e, demo_booked) \<and>
     (\<forall>uh uv. users demo_booked 1 = Some uh \<and> users demo_booked 2 = Some uv \<and>
        role uh = HR_MANAGER \<and> role uv = INTERVIEWER \<and>
        is_available uh \<lparr>start_time = 570, end_time = 630\<rparr> \<and>
        is_available uv \<lparr>start_time = 570, end_time = 630\<rparr> \<longrightarrow>
        e = runtime_error ''Time slot conflicts with existing interview'')"
    by (rule no_double_booking_reachable [OF reachable_demo_booked, THEN conjunct2, rule_format,
          of 1 "\<lparr>interview_id = 1, candidate_name = ''John Doe'',
             position = ''Software Engineer'', hr_manager_id = 1, interviewer_id = 2,
             time_slot = \<lparr>start_time = 540, end_time = 600\<rparr>,
             status = SCHEDULED, notes_text = []\<rparr>" 1 2])
      (simp add: demo_booked_fields references_def overlaps_def)
  then have "schedule_interview ''Jane Smith'' ''Product Manager'' 1 2
       \<lparr>start_time = 570, end_time = 630\<rparr> demo_booked =
     (Inl (runtime_error ''Time slot conflicts with existing interview''), demo_booked)"
    by (auto simp: demo_booked_fields is_available_def)
  with no_double_booking_reachable [OF reachable_demo_booked] reachable_demo_booked
  show ?thesis by simp
qed

text \<open>
  C6. In every state that the engine operations reach, every id in a user's set of
  bookings is the id of an interview of the registry that is SCHEDULED and has the
  user's id as its HR manager or its interviewer; the states after a further
  \<open>schedule_interview\<close> or \<open>cancel_interview\<close> satisfy this again.
\<close>

theorem active_bookings_refer:
  "reachable s \<Longrightarrow>
   bookings_refer s \<and>
   bookings_refer (snd (schedule_interview c p h v slot s)) \<and>
   bookings_refer (snd (cancel_interview iid s))"
  using reachable_engine_inv [of s] engine_inv_schedule [of s c p h v slot]
    engine_inv_cancel [of s iid]
  by (simp add: engine_inv_def)

theorem active_bookings_refer_witness:
  "reachable demo_booked \<and> bookings_refer demo_booked \<and>
   map_option scheduled_interviews (users demo_booked 1) = Some [1] \<and>
   map_option status (interviews demo_booked 1) = Some SCHEDULED \<and>
   bookings_refer (snd (cancel_interview 1 demo_booked)) \<and>
   map_option scheduled_interviews (users (snd (cancel_interview 1 demo_booked)) 1) = Some []"
  using active_bookings_refer [OF reachable_demo_booked, where c = "[]" and p = "[]" and h = 1
      and v = 2 and slot = "\<lparr>start_time = 540, end_time = 600\<rparr>" and iid = 1] reachable_demo_booked
  by (simp add: demo_booked_fields demo_cancelled_fields)

lemma upto_snoc: "0 \<le> k \<Longrightarrow> [n..n + k] = [n..n + k - 1] @ [n + k]"
  by (simp add: upto_rec2)

text \<open>
  C10 (amended). A call of \<open>schedule_interview\<close> that fails leaves the interview id
  counter alone: the counter advances only when an \<open>Interview\<close> is constructed. So the
  successful calls of a run return consecutive ids, however many failed calls lie
  between them, beginning with the value that the static counter \<open>Interview::next_id\<close>
  has when the run starts; these are 1, 2, 3, ... for a run from program start.
\<close>

theorem booked_ids_consecutive:
  "run s0 s ids \<Longrightarrow>
   ids = [Interview_next_id s0..Interview_next_id s0 + int (length ids) - 1] \<and>
   Interview_next_id s = Interview_next_id s0 + int (length ids) \<and>
   (s0 = initial_state \<longrightarrow> ids = [1..int (length ids)]) \<and>
   (\<forall>c p h v slot e s'. schedule_interview c p h v slot s = (Inl e, s') \<longrightarrow>
      Interview_next_id s' = Interview_next_id s) \<and>
   (\<forall>c p h v slot i s'. schedule_interview c p h v slot s = (Inr i, s') \<longrightarrow>
      i = Interview_next_id s0 + int (length ids) \<and> Interview_next_id s' = i + 1)"
proof -
  let ?n = "Interview_next_id s0"
  assume "run s0 s ids"
  then have main: "ids = [?n..?n + int (length ids) - 1] \<and>
      Interview_next_id s = ?n + int (length ids)"
  proof (induction rule: run.induct)
    case run_init
    show ?case by simp
  next
    case (run_add_user s ids n e r)
    then show ?case by (simp add: add_user_fields)
  next
    case (run_add_availability s ids uid u slot)
    then show ?case by simp
  next
    case (run_schedule_ok s ids c p h v slot i s')
    from schedule_interview_ok [OF run_schedule_ok.hyps(2)]
    have i: "i = Interview_next_id s" "Interview_next_id s' = i + 1" by auto
    with run_schedule_ok.IH have eq: "i = ?n + int (length ids)" by simp
    have "[?n..?n + int (length (ids @ [i])) - 1] = [?n..?n + int (length ids) - 1] @ [i]"
      using upto_snoc [of "int (length ids)" ?n] eq by simp
    with run_schedule_ok.IH i eq show ?case by simp
  next
    case (run_schedule_failed s ids c p h v slot e s')
    from schedule_interview_failed [OF run_schedule_failed.hyps(2)] run_schedule_failed.IH
    show ?case by simp
  next
    case (run_cancel s ids iid)
    show ?case
    proof (cases "interviews s iid")
      case None
      with run_cancel.IH show ?thesis by (simp add: cancel_interview_unknown)
    next
      case (Some it)
      with run_cancel.IH show ?thesis by (simp add: cancel_interview_known)
    qed
  qed
  moreover have "ids = [1..int (length ids)]" if "s0 = initial_state"
  proof -
    from that have "?n = 1" by (simp add: initial_state_def)
    with main have "ids = [1..1 + int (length ids) - 1]" by simp
    then show ?thesis by simp
  qed
  moreover have "Interview_next_id s' = Interview_next_id s"
    if "schedule_interview c p h v slot s = (Inl e, s')" for c p h v slot e s'
    using schedule_interview_failed [OF that] by simp
  moreover have "i = ?n + int (length ids) \<and> Interview_next_id s' = i + 1"
    if "schedule_interview c p h v slot s = (Inr i, s')" for c p h v slot i s'
    using schedule_interview_ok [OF that] main by auto
  ultimately show ?thesis by blast
qed

theorem booked_ids_consecutive_witness:
  "run initial_state demo_rebooked [1, 2] \<and> [1, 2] = [1..int (length [1, 2 :: int])] \<and>
   Interview_next_id demo_rebooked = 3 \<and>
   Interview_next_id (snd (schedule_interview ''Jane Smith'' ''Product Manager'' 1 2
      \<lparr>start_time = 570, end_time = 630\<rparr> demo_booked)) = Interview_next_id demo_booked \<and>
   run (fresh_Scheduler demo_booked) second_booked [2] \<and>
   Interview_next_id second_booked = 3"
proof -
  from booked_ids_consecutive [OF run_demo_booked]
  have "schedule_interview ''Jane Smith'' ''Product Manager'' 1 2
      \<lparr>start_time = 570, end_time = 630\<rparr> demo_booked =
        (Inl (runtime_error ''Time slot conflicts with existing interview''), demo_booked) \<longrightarrow>
      Interview_next_id demo_booked = Interview_next_id demo_booked"
    by blast
  moreover from booked_ids_consecutive [OF run_demo_rebooked]
  have "[1, 2] = [1..int (length [1, 2 :: int])] \<and> Interview_next_id demo_rebooked = 3"
    by (simp add: initial_state_def)
  moreover from booked_ids_consecutive [OF run_second_booked]
  have "Interview_next_id second_booked = 3"
    by (simp add: fresh_Scheduler_def demo_booked_fields)
  ultimately show ?thesis
    using demo_conflicting_booking run_demo_rebooked run_second_booked by simp
qed

text \<open>
  C10 as stated fails for a fresh engine that is not the first of its process: the second
  engine has empty registries, and its first successful booking returns 2.
\<close>

theorem fresh_engine_first_id_counterexample:
  "dom (users (fresh_Scheduler demo_booked)) = {} \<and>
   dom (interviews (fresh_Scheduler demo_booked)) = {} \<and>
   run (fresh_Scheduler demo_booked) second_registered [] \<and>
   fst (schedule_interview ''Jane Smith'' ''Product Manager'' 5 6
          \<lparr>start_time = 540, end_time = 600\<rparr> second_registered) = Inr 2 \<and>
   run (fresh_Scheduler demo_booked) second_booked [2] \<and>
   [2] \<noteq> [1..int (length [2 :: int])]"
  using run_second_registered run_second_booked second_first_booking
  by (simp add: fresh_Scheduler_def)

section \<open>Booking after a cancellation\<close>

lemma has_conflict_after_cancel:
  assumes "interviews s iid = Some it"
  shows "has_conflict (snd (cancel_interview iid s)) uid slot =
         active_conflict_besides iid s uid slot"
  unfolding has_conflict_iff active_conflict_def active_conflict_besides_def
    overlapping_booking_def cancel_interview_known [OF assms]
  by (auto split: option.splits if_splits)

lemma schedule_interview_succeeds:
  assumes "users s h = Some uh" "users s v = Some uv" "role uh = HR_MANAGER"
    "role uv = INTERVIEWER" "is_available uh slot" "is_available uv slot"
    "\<not> has_conflict s h slot" "\<not> has_conflict s v slot"
  shows "fst (schedule_interview c p h v slot s) = Inr (Interview_next_id s)"
  using assms by (simp add: schedule_interview_def get_user_def new_Interview_def Let_def)

lemma users_after_cancel:
  assumes "users (snd (cancel_interview iid s)) x = Some u'"
  shows "\<exists>u. users s x = Some u \<and> role u' = role u \<and> availability u' = availability u"
proof (cases "interviews s iid")
  case None
  with assms show ?thesis by (simp add: cancel_interview_unknown)
next
  case (Some it)
  with assms show ?thesis
    by (auto simp: cancel_interview_known(3) [OF Some] split: if_splits)
qed

text \<open>
  C8. Let interview \<open>iid\<close> of HR manager \<open>hr\<close> and interviewer \<open>iv\<close> at slot \<open>s\<close> be
  SCHEDULED in a reachable state, and let it be cancelled. A request at slot \<open>s\<close> then
  succeeds (with a new id) for \<open>hr\<close> and \<open>iv\<close>, and for either of them with a
  registered counterpart of the right role, provided that after the cancellation both
  requested participants have a window that contains \<open>s\<close> and that neither has an active
  SCHEDULED interview other than \<open>iid\<close> that overlaps \<open>s\<close>.
\<close>

theorem cancel_frees_capacity:
  assumes "reachable s"
    and "interviews s iid = Some it" and "status it = SCHEDULED"
    and "h = hr_manager_id it \<or> (\<exists>u. users s h = Some u \<and> role u = HR_MANAGER)"
    and "v = interviewer_id it \<or> (\<exists>u. users s v = Some u \<and> role u = INTERVIEWER)"
    and "\<exists>u. users (snd (cancel_interview iid s)) h = Some u \<and> is_available u (time_slot it)"
    and "\<exists>u. users (snd (cancel_interview iid s)) v = Some u \<and> is_available u (time_slot it)"
    and "\<not> active_conflict_besides iid s h (time_slot it)"
    and "\<not> active_conflict_besides iid s v (time_slot it)"
  shows "fst (schedule_interview c p h v (time_slot it) (snd (cancel_interview iid s))) =
           Inr (Interview_next_id s) \<and>
         Interview_next_id s \<noteq> iid"
proof -
  let ?s1 = "snd (cancel_interview iid s)"
  from reachable_engine_inv [OF assms(1)] have ok: "registry_ok s"
    by (simp add: engine_inv_def)
  from ok assms(2) have it: "iid < Interview_next_id s"
    "\<exists>u. users s (hr_manager_id it) = Some u \<and> role u = HR_MANAGER"
    "\<exists>u. users s (interviewer_id it) = Some u \<and> role u = INTERVIEWER"
    unfolding registry_ok_def by blast+
  from assms(4) it(2) have rh: "\<exists>u. users s h = Some u \<and> role u = HR_MANAGER" by blast
  from assms(5) it(3) have rv: "\<exists>u. users s v = Some u \<and> role u = INTERVIEWER" by blast
  from assms(6) obtain uh where uh: "users ?s1 h = Some uh" "is_available uh (time_slot it)"
    by blast
  from assms(7) obtain uv where uv: "users ?s1 v = Some uv" "is_available uv (time_slot it)"
    by blast
  from users_after_cancel [OF uh(1)] rh have roleh: "role uh = HR_MANAGER" by auto
  from users_after_cancel [OF uv(1)] rv have rolev: "role uv = INTERVIEWER" by auto
  have "fst (schedule_interview c p h v (time_slot it) ?s1) = Inr (Interview_next_id ?s1)"
    using assms(8,9)
    by (intro schedule_interview_succeeds [OF uh(1) uv(1) roleh rolev uh(2) uv(2)])
      (simp_all add: has_conflict_after_cancel [OF assms(2)])
  with it(1) show ?thesis by (simp add: cancel_interview_known(5) [OF assms(2)])
qed

theorem cancel_frees_capacity_witness:
  "reachable demo_booked \<and>
   map_option status (interviews demo_booked 1) = Some SCHEDULED \<and>
   fst (schedule_interview ''Jane Smith'' ''Product Manager'' 1 2
          \<lparr>start_time = 540, end_time = 600\<rparr> (snd (cancel_interview 1 demo_booked))) = Inr 2 \<and>
   fst (schedule_interview ''Jane Smith'' ''Product Manager'' 1 4
          \<lparr>start_time = 540, end_time = 600\<rparr> (snd (cancel_interview 1 demo_booked))) = Inr 2"
proof -
  let ?it = "\<lparr>interview_id = 1, candidate_name = ''John Doe'', position = ''Software Engineer'',
             hr_manager_id = 1, interviewer_id = 2,
             time_slot = \<lparr>start_time = 540, end_time = 600\<rparr>,
             status = SCHEDULED, notes_text = []\<rparr>"
  have it: "interviews demo_booked 1 = Some ?it" "status ?it = SCHEDULED"
    by (simp_all add: demo_booked_fields)
  have part: "1 = hr_manager_id ?it \<or> (\<exists>u. users demo_booked 1 = Some u \<and> role u = HR_MANAGER)"
    "2 = interviewer_id ?it \<or> (\<exists>u. users demo_booked 2 = Some u \<and> role u = INTERVIEWER)"
    "4 = interviewer_id ?it \<or> (\<exists>u. users demo_booked 4 = Some u \<and> role u = INTERVIEWER)"
    by (simp_all add: demo_booked_fields)
  have avail:
    "\<exists>u. users (snd (cancel_interview 1 demo_booked)) 1 = Some u \<and> is_available u (time_slot ?it)"
    "\<exists>u. users (snd (cancel_interview 1 demo_booked)) 2 = Some u \<and> is_available u (time_slot ?it)"
    "\<exists>u. users (snd (cancel_interview 1 demo_booked)) 4 = Some u \<and> is_available u (time_slot ?it)"
    by (simp_all add: demo_cancelled_fields is_available_def)
  have free: "\<not> active_conflict_besides 1 demo_booked 1 (time_slot ?it)"
    "\<not> active_conflict_besides 1 demo_booked 2 (time_slot ?it)"
    "\<not> active_conflict_besides 1 demo_booked 4 (time_slot ?it)"
    by (simp_all add: active_conflict_besides_def demo_booked_fields)
  from cancel_frees_capacity [OF reachable_demo_booked it part(1,2) avail(1,2) free(1,2)]
    cancel_frees_capacity [OF reachable_demo_booked it part(1,3) avail(1,3) free(1,3)]
    reachable_demo_booked
  show ?thesis by (simp add: demo_booked_fields)
qed

section \<open>The operations on the sample run\<close>

theorem schedule_interview_atomic_witness:
  "fst (schedule_interview ''Jane Smith'' ''Product Manager'' 1 2
          \<lparr>start_time = 570, end_time = 630\<rparr> demo_booked) =
     Inl (runtime_error ''Time slot conflicts with existing interview'') \<and>
   snd (schedule_interview ''Jane Smith'' ''Product Manager'' 1 2
          \<lparr>start_time = 570, end_time = 630\<rparr> demo_booked) = demo_booked \<and>
   interviews demo_booked 2 = None"
proof -
  have failed: "fst (schedule_interview ''Jane Smith'' ''Product Manager'' 1 2
          \<lparr>start_time = 570, end_time = 630\<rparr> demo_booked) =
     Inl (runtime_error ''Time slot conflicts with existing interview'')"
    by (simp add: schedule_interview_def get_user_def demo_booked_fields
      is_available_def has_conflict_def overlaps_def)
  from schedule_interview_atomic [OF failed] failed show ?thesis
    by (simp add: demo_booked_fields)
qed

theorem schedule_interview_error_order_witness:
  "book_interview_failure demo_booked 9 1 \<lparr>start_time = 0, end_time = 2000\<rparr> =
     Some UnknownParticipant \<and>
   book_interview_failure demo_booked 2 1 \<lparr>start_time = 0, end_time = 2000\<rparr> =
     Some RoleMismatch \<and>
   book_interview_failure demo_booked 1 3 \<lparr>start_time = 570, end_time = 630\<rparr> =
     Some NotAvailable \<and>
   book_interview_failure demo_booked 1 2 \<lparr>start_time = 570, end_time = 630\<rparr> =
     Some SlotConflict \<and>
   book_interview_failure demo_booked 1 2 \<lparr>start_time = 600, end_time = 630\<rparr> = None"
proof -
  have "fst (schedule_interview [] [] 9 1 \<lparr>start_time = 0, end_time = 2000\<rparr> demo_booked) =
      Inl (runtime_error ''Invalid user ID'')"
    "fst (schedule_interview [] [] 2 1 \<lparr>start_time = 0, end_time = 2000\<rparr> demo_booked) =
      Inl (runtime_error ''User is not an HR manager'')"
    "fst (schedule_interview [] [] 1 3 \<lparr>start_time = 570, end_time = 630\<rparr> demo_booked) =
      Inl (runtime_error ''Interviewer is not available at this time'')"
    "fst (schedule_interview [] [] 1 2 \<lparr>start_time = 570, end_time = 630\<rparr> demo_booked) =
      Inl (runtime_error ''Time slot conflicts with existing interview'')"
    "fst (schedule_interview [] [] 1 2 \<lparr>start_time = 600, end_time = 630\<rparr> demo_booked) =
      Inr 2"
    by (simp_all add: schedule_interview_def get_user_def demo_booked_fields
      is_available_def has_conflict_def overlaps_def new_Interview_def Let_def)
  then show ?thesis
    using schedule_interview_error_order [where c = "[]" and p = "[]" and h = 9 and v = 1
        and slot = "\<lparr>start_time = 0, end_time = 2000\<rparr>" and s = demo_booked]
      schedule_interview_error_order [where c = "[]" and p = "[]" and h = 2 and v = 1
        and slot = "\<lparr>start_time = 0, end_time = 2000\<rparr>" and s = demo_booked]
      schedule_interview_error_order [where c = "[]" and p = "[]" and h = 1 and v = 3
        and slot = "\<lparr>start_time = 570, end_time = 630\<rparr>" and s = demo_booked]
      schedule_interview_error_order [where c = "[]" and p = "[]" and h = 1 and v = 2
        and slot = "\<lparr>start_time = 570, end_time = 630\<rparr>" and s = demo_booked]
      schedule_interview_error_order [where c = "[]" and p = "[]" and h = 1 and v = 2
        and slot = "\<lparr>start_time = 600, end_time = 630\<rparr>" and s = demo_booked]
    by (simp add: error_kind_def)
qed

theorem cancel_interview_idempotent_witness:
  "interviews demo_booked 1 \<noteq> None \<and>
   fst (cancel_interview 1 demo_booked) = True \<and>
   cancel_interview 1 (snd (cancel_interview 1 demo_booked)) =
     (True, snd (cancel_interview 1 demo_booked)) \<and>
   map_option status (interviews (snd (cancel_interview 1 demo_booked)) 1) = Some CANCELLED \<and>
   fst (cancel_interview 5 demo_booked) = False"
proof -
  have known: "interviews demo_booked 1 \<noteq> None" and unknown: "interviews demo_booked 5 = None"
    by (simp_all add: demo_booked_fields)
  from cancel_interview_idempotent [of demo_booked 1] cancel_interview_idempotent [of demo_booked 5]
    known unknown
  show ?thesis by simp
qed

end
